theory Spec2Isabelle
  imports Main
begin

section \<open>Strings\<close>

text \<open>
  A Python \<open>str\<close> is modelled as a \<open>string\<close>, one \<open>char\<close> per character
  of the Python string.  Only the characters \<open>_ . $ ( ) \<close> and the quotes are ever
  told apart by the code below.
\<close>

definition startswith :: "string \<Rightarrow> string \<Rightarrow> bool" where
  "startswith s p = (take (length p) s = p)"

definition endswith :: "string \<Rightarrow> string \<Rightarrow> bool" where
  "endswith s p = (length p \<le> length s \<and> drop (length s - length p) s = p)"

text \<open>\<open>s.split(c)\<close> for a one-character separator: never empty, \<open>"".split(".") = [""]\<close>.\<close>

fun split_on :: "char \<Rightarrow> string \<Rightarrow> string list" where
  "split_on c [] = [[]]"
| "split_on c (x # xs) =
     (if x = c then [] # split_on c xs
      else (case split_on c xs of
              [] \<Rightarrow> [[x]]
            | y # ys \<Rightarrow> (x # y) # ys))"

text \<open>The double quote, the single quote and the backslash.\<close>

definition dquote :: char where "dquote = CHR 0x22"

definition squote :: char where "squote = CHR 0x27"

definition backslash :: char where "backslash = CHR 0x5C"

text \<open>\<open>sep.join(xs)\<close>.\<close>

fun join :: "string \<Rightarrow> string list \<Rightarrow> string" where
  "join sep [] = []"
| "join sep [x] = x"
| "join sep (x # y # ys) = x @ sep @ join sep (y # ys)"

section \<open>Reserved identifiers\<close>

definition is_reserved_identifier :: "string \<Rightarrow> bool" where
  "is_reserved_identifier s =
     (if length s < 5 then False
      else startswith s ''__'' \<and> endswith s ''__'')"

section \<open>Words\<close>

text \<open>
  Modelled from the spec: the class \<open>tokenizer.word\<close> is not part of the sources at hand.
  The spec describes a token as raw text, an optional quoting style and source-location
  metadata, immutable once produced.  \<open>word_value\<close> is the attribute \<open>value\<close>.
\<close>

record word =
  word_value :: string
  quote_token :: "char option"
  line_number :: "nat option"
  source_info :: "string option"

text \<open>\<open>tokenizer.word(value=v, quote_token=q)\<close> and \<open>tokenizer.word(value=v)\<close>.\<close>

definition mk_word :: "string \<Rightarrow> char option \<Rightarrow> word" where
  "mk_word v q = \<lparr>word_value = v, quote_token = q, line_number = None, source_info = None\<rparr>"

section \<open>Errors and warnings\<close>

text \<open>
  One constructor per \<open>raise\<close> site of the source; the arguments are the values the
  message is built from.  \<open>Reserved_identifier\<close> is the error of the
  \<open>is_reserved_identifier\<close> check, \<open>Reserved_include\<close> the one of the \<open>include\<close> check.
  \<open>Hook_error\<close> stands for whatever a converter hook raises, \<open>Out_of_fuel\<close> for a
  computation that does not come back within the given number of steps.
\<close>

datatype error =
    Reserved_identifier string string
  | Reserved_include string
  | Sequential_format_error string
  | Incompatible_definition_vs_scope string string string string
  | Incompatible_scope_vs_definition string string string string
  | Duplicate_definitions_in_master string string string string
  | Not_a_definition string word
  | Undefined_variable string word
  | Syntax_error string word
  | No_from_words string
  | No_as_words string
  | AssertionError
  | AttributeError
  | TypeError
  | Hook_error string
  | Out_of_fuel

datatype warning = PhilDeprecationWarning string

fun is_reserved_error :: "error \<Rightarrow> bool" where
  "is_reserved_error (Reserved_identifier n w) = True"
| "is_reserved_error (Reserved_include w) = True"
| "is_reserved_error e = False"

section \<open>The tree: definitions and scopes\<close>

text \<open>
  An address stands for a reference to a scope object; \<open>primary_parent_scope\<close> is such a
  reference (or \<open>None\<close>).  The scratch slot \<open>tmp\<close> is left out: it is written during a
  fetch and read only by the unused-definitions report, which is not modelled.
  \<open>help_attr\<close> and \<open>alias_attr\<close> are the attributes \<open>help\<close> and \<open>alias\<close>.
\<close>

type_synonym addr = nat

record node_common =
  name :: string
  primary_id :: "int option"
  primary_parent_scope :: "addr option"
  is_disabled :: bool
  is_template :: int
  where_str :: string
  merge_names :: bool
  help_attr :: "string option"
  caption :: "string option"
  short_caption :: "string option"
  optional :: "bool option"
  multiple :: "bool option"
  style :: "string option"
  expert_level :: "int option"
  alias_attr :: "string option"

text \<open>
  The attribute \<open>type\<close> of a definition is \<open>None\<close>, the marker \<open>Auto\<close> or a converters
  instance; an instance is named by its (normalised) type expression.
\<close>

datatype type_ref = Auto_type | Converters string

record phil_definition = node_common +
  words :: "word list"
  type :: "type_ref option"
  input_size :: "int option"
  deprecated :: "bool option"

record phil_scope = node_common +
  call :: "string option"
  sequential_format :: "string option"
  disable_add :: "bool option"
  disable_delete :: "bool option"

datatype obj = Definition phil_definition | Scope phil_scope "obj list"

text \<open>Truth value of an attribute that is \<open>None\<close>, \<open>True\<close> or \<open>False\<close>.\<close>

definition truthy :: "bool option \<Rightarrow> bool" where
  "truthy b = (b = Some True)"

fun is_definition :: "obj \<Rightarrow> bool" where
  "is_definition (Definition d) = True"
| "is_definition (Scope s os) = False"

fun is_scope :: "obj \<Rightarrow> bool" where
  "is_scope (Definition d) = False"
| "is_scope (Scope s os) = True"

fun obj_name :: "obj \<Rightarrow> string" where
  "obj_name (Definition d) = name d"
| "obj_name (Scope s os) = name s"

fun obj_is_disabled :: "obj \<Rightarrow> bool" where
  "obj_is_disabled (Definition d) = is_disabled d"
| "obj_is_disabled (Scope s os) = is_disabled s"

fun obj_is_template :: "obj \<Rightarrow> int" where
  "obj_is_template (Definition d) = is_template d"
| "obj_is_template (Scope s os) = is_template s"

fun obj_multiple :: "obj \<Rightarrow> bool option" where
  "obj_multiple (Definition d) = multiple d"
| "obj_multiple (Scope s os) = multiple s"

fun obj_optional :: "obj \<Rightarrow> bool option" where
  "obj_optional (Definition d) = optional d"
| "obj_optional (Scope s os) = optional s"

fun obj_primary_id :: "obj \<Rightarrow> int option" where
  "obj_primary_id (Definition d) = primary_id d"
| "obj_primary_id (Scope s os) = primary_id s"

fun obj_parent :: "obj \<Rightarrow> addr option" where
  "obj_parent (Definition d) = primary_parent_scope d"
| "obj_parent (Scope s os) = primary_parent_scope s"

fun obj_alias :: "obj \<Rightarrow> string option" where
  "obj_alias (Definition d) = alias_attr d"
| "obj_alias (Scope s os) = alias_attr s"

fun obj_where_str :: "obj \<Rightarrow> string" where
  "obj_where_str (Definition d) = where_str d"
| "obj_where_str (Scope s os) = where_str s"

text \<open>\<open>deprecated\<close> is a class attribute of \<open>scope\<close>, always \<open>False\<close>.\<close>

fun obj_deprecated :: "obj \<Rightarrow> bool" where
  "obj_deprecated (Definition d) = truthy (deprecated d)"
| "obj_deprecated (Scope s os) = False"

subsection \<open>Constructors\<close>

text \<open>
  \<open>definition.__init__\<close>: the record holds the keyword arguments; the result is the new
  object or the error raised.
\<close>

definition definition_init :: "phil_definition \<Rightarrow> error + phil_definition" where
  "definition_init d =
     (if is_reserved_identifier (name d) then Inl (Reserved_identifier (name d) (where_str d))
      else if name d \<noteq> ''include'' \<and> ''include'' \<in> set (split_on CHR ''.'' (name d))
        then Inl (Reserved_include (where_str d))
      else Inr d)"

text \<open>
  \<open>scope.__init__\<close>: \<open>objects=None\<close> becomes the empty list.  The last check applies
  Python's \<open>%\<close> to the template and \<open>0\<close>; \<open>fmt_ok\<close> says for which templates that
  yields a string.
\<close>

definition scope_init :: "(string \<Rightarrow> bool) \<Rightarrow> phil_scope \<Rightarrow> obj list option \<Rightarrow> error + obj" where
  "scope_init fmt_ok s objects =
     (let objs = (case objects of None \<Rightarrow> [] | Some os \<Rightarrow> os) in
      if is_reserved_identifier (name s) then Inl (Reserved_identifier (name s) (where_str s))
      else if ''include'' \<in> set (split_on CHR ''.'' (name s))
        then Inl (Reserved_include (where_str s))
      else (case sequential_format s of
              None \<Rightarrow> Inr (Scope s objs)
            | Some f \<Rightarrow> if fmt_ok f then Inr (Scope s objs) else Inl (Sequential_format_error f)))"

subsection \<open>Copies\<close>

text \<open>
  \<open>copy()\<close> builds a new object from the slots of the old one, through the constructor.
  The constructor's checks are not repeated in the model: \<open>copy\<close> is the identity on
  values.  \<open>customized_copy\<close> then assigns \<open>name\<close>, \<open>words\<close> or \<open>objects\<close> when
  they are not \<open>None\<close>, and sets \<open>is_template\<close> to \<open>0\<close>.
\<close>

definition definition_customized_copy ::
  "phil_definition \<Rightarrow> string option \<Rightarrow> word list option \<Rightarrow> phil_definition" where
  "definition_customized_copy d new_name new_words =
     (let r1 = (case new_name of None \<Rightarrow> d | Some n \<Rightarrow> d\<lparr>name := n\<rparr>);
          r2 = (case new_words of None \<Rightarrow> r1 | Some ws \<Rightarrow> r1\<lparr>words := ws\<rparr>)
      in r2\<lparr>is_template := 0\<rparr>)"

definition scope_customized_copy ::
  "phil_scope \<Rightarrow> obj list \<Rightarrow> string option \<Rightarrow> obj list option \<Rightarrow> obj" where
  "scope_customized_copy s objs new_name new_objects =
     (let r1 = (case new_name of None \<Rightarrow> s | Some n \<Rightarrow> s\<lparr>name := n\<rparr>);
          os = (case new_objects of None \<Rightarrow> objs | Some os' \<Rightarrow> os')
      in Scope (r1\<lparr>is_template := 0\<rparr>) os)"

fun set_is_template :: "obj \<Rightarrow> int \<Rightarrow> obj" where
  "set_is_template (Definition d) v = Definition (d\<lparr>is_template := v\<rparr>)"
| "set_is_template (Scope s os) v = Scope (s\<lparr>is_template := v\<rparr>) os"

section \<open>Parent scopes\<close>

text \<open>
  The heap gives, for the address held in a \<open>primary_parent_scope\<close> slot, the scope object
  it refers to: its attributes and its \<open>objects\<close>.  Nothing modelled here writes to a
  scope that is reached through such a reference, so the heap is read only.  A loop or a
  recursion that follows these references takes a number of steps it may use.
\<close>

type_synonym heap = "addr \<Rightarrow> phil_scope \<times> obj list"

fun full_path_loop :: "heap \<Rightarrow> nat \<Rightarrow> addr option \<Rightarrow> string list \<Rightarrow> error + string list" where
  "full_path_loop h fuel None result = Inr result"
| "full_path_loop h 0 (Some a) result = Inl Out_of_fuel"
| "full_path_loop h (Suc n) (Some a) result =
     (let pps = fst (h a) in
      if name pps = [] then Inr result
      else full_path_loop h n (primary_parent_scope pps) (result @ [name pps]))"

definition full_path :: "heap \<Rightarrow> nat \<Rightarrow> string \<Rightarrow> addr option \<Rightarrow> error + string" where
  "full_path h fuel self_name pps =
     (case full_path_loop h fuel pps [self_name] of
        Inl e \<Rightarrow> Inl e
      | Inr result \<Rightarrow> Inr (join ''.'' (rev result)))"

text \<open>The loop of \<open>alias_path\<close>; the flag returned is \<open>have_alias\<close>.\<close>

fun alias_path_loop ::
  "heap \<Rightarrow> nat \<Rightarrow> addr option \<Rightarrow> string list \<Rightarrow> error + (string list \<times> bool)" where
  "alias_path_loop h fuel None result = Inr (result, False)"
| "alias_path_loop h 0 (Some a) result = Inl Out_of_fuel"
| "alias_path_loop h (Suc n) (Some a) result =
     (let pps = fst (h a) in
      case alias_attr pps of
        Some al \<Rightarrow> Inr (result @ [al], True)
      | None \<Rightarrow>
          if name pps = [] then Inr (result, False)
          else alias_path_loop h n (primary_parent_scope pps) (result @ [name pps]))"

definition alias_path :: "heap \<Rightarrow> nat \<Rightarrow> obj \<Rightarrow> error + string option" where
  "alias_path h fuel self =
     (case obj_alias self of
        Some al \<Rightarrow> Inr (Some al)
      | None \<Rightarrow>
          (case alias_path_loop h fuel (obj_parent self) [obj_name self] of
             Inl e \<Rightarrow> Inl e
           | Inr (result, have_alias) \<Rightarrow>
               if \<not> have_alias then Inr None
               else Inr (Some (join ''.'' (rev result)))))"

section \<open>Active objects\<close>

definition active_objects :: "obj list \<Rightarrow> obj list" where
  "active_objects objs = filter (\<lambda>ob. \<not> obj_is_disabled ob) objs"

text \<open>
  \<open>master_active_objects\<close> is a generator.  \<open>names_object\<close> is its dictionary (the first
  active object of each name), kept as an association list.  One turn of its loop, for the
  object \<open>ob\<close>, skips the object, yields it, or raises.  An object that is found in
  the dictionary under its own name is the same object only if it was put there in this
  very turn: the members of \<open>objects\<close> are distinct objects.  In the error the two
  full paths of the message are given by the names.
\<close>

datatype 'a turn = Skip | Yielded 'a | Raised error

type_synonym names_object = "(string \<times> obj) list"

definition master_active_turn :: "names_object \<Rightarrow> obj \<Rightarrow> names_object \<times> unit turn" where
  "master_active_turn names ob =
     (if obj_is_disabled ob then (names, Skip)
      else (case map_of names (obj_name ob) of
              None \<Rightarrow> (names @ [(obj_name ob, ob)], Yielded ())
            | Some master \<Rightarrow>
                if truthy (obj_multiple master) then (names, Skip)
                else if is_definition ob
                  then (names, Raised (Duplicate_definitions_in_master
                          (obj_name master) (obj_where_str master)
                          (obj_name ob) (obj_where_str ob)))
                else (names, Yielded ())))"



section \<open>Values, converters and the surroundings\<close>

text \<open>
  The value graph.  \<open>PyVal\<close> holds a value produced by a converter, \<open>Scope_extract\<close> a
  \<open>scope_extract\<close> object: its \<open>__phil_name__\<close>, its \<open>__phil_call__\<close> and its attributes
  in the order they were first set (the reference to its parent, used in messages only,
  is left out).  \<open>Scope_extract_list\<close> is a \<open>scope_extract_list\<close> with its
  \<open>__phil_optional__\<close>.  \<open>Scope_extract_is_disabled\<close> is the class of that name, which the
  code passes around as a marker.
\<close>

datatype 'v pyobj =
    PyNone
  | PyAuto
  | PyVal 'v
  | Scope_extract string "string option" "(string \<times> 'v pyobj) list"
  | Scope_extract_list "bool option" "'v pyobj list"
  | Scope_extract_is_disabled

text \<open>
  A converters instance: its \<open>phil_type\<close> and the methods it may have.  The third
  argument of \<open>fetch\<close> is \<open>ignore_errors\<close>, given only to the type \<open>choice\<close>.
\<close>

record 'v converters =
  phil_type :: string
  fetch :: "(word list \<Rightarrow> phil_definition \<Rightarrow> bool option \<Rightarrow> error + obj option) option"
  from_words :: "(word list \<Rightarrow> phil_definition \<Rightarrow> error + 'v pyobj) option"
  as_words :: "('v pyobj \<Rightarrow> phil_definition \<Rightarrow> error + word list) option"

text \<open>
  What the code takes from modules that are not part of the sources at hand, and from the
  process: the environment \<open>os.environ\<close>; membership in
  \<open>standard_identifier_start_characters\<close> and
  \<open>standard_identifier_continuation_characters\<close>; \<open>is_standard_identifier\<close>;
  \<open>strings_from_words\<close> and \<open>strings_as_words\<close>; the converters instance a type
  expression names; \<open>str(word)\<close>; and \<open>append\<close> on a value a converter produced
  (\<open>None\<close> when the value has no such method).  They are parameters of everything
  below.
\<close>

record 'v ext =
  environ :: "string \<Rightarrow> string option"
  ident_start :: "char \<Rightarrow> bool"
  ident_cont :: "char \<Rightarrow> bool"
  is_standard_identifier :: "string \<Rightarrow> bool"
  strings_from_words :: "word list \<Rightarrow> 'v pyobj"
  strings_as_words :: "'v pyobj \<Rightarrow> error + word list"
  converters_of :: "string \<Rightarrow> 'v converters"
  word_str :: "word \<Rightarrow> string"
  val_append :: "'v \<Rightarrow> 'v pyobj \<Rightarrow> 'v option"

section \<open>Variable substitution\<close>

record variable_substitution_fragment =
  is_variable :: bool
  fragment_value :: string

definition mk_fragment :: "bool \<Rightarrow> string \<Rightarrow> variable_substitution_fragment" where
  "mk_fragment v s = \<lparr>is_variable = v, fragment_value = s\<rparr>"

text \<open>
  The scan of \<open>variable_substitution_proxy.__init__\<close>.  The character iterator is read
  as the list of the characters from the current one on; \<open>fv\<close> is the fragment value
  collected so far.  The result is the list of fragments and \<open>have_variables\<close>.
  \<open>raise_syntax_error\<close> is taken to raise.
\<close>

definition in_name :: "'v ext \<Rightarrow> char \<Rightarrow> bool" where
  "in_name x c = (c \<noteq> CHR ''.'' \<and> ident_cont x c)"

definition flush :: "string \<Rightarrow> variable_substitution_fragment list" where
  "flush fv = (if length fv > 0 then [mk_fragment False fv] else [])"

function scan_fragments ::
  "'v ext \<Rightarrow> word \<Rightarrow> string \<Rightarrow> string \<Rightarrow> error + (variable_substitution_fragment list \<times> bool)"
  where
  "scan_fragments x w [] fv = Inr (flush fv, False)"
| "scan_fragments x w (c # cs) fv =
     (if c \<noteq> CHR ''$'' then
        (if c = backslash \<and> (case cs of [] \<Rightarrow> False | c' # cs' \<Rightarrow> c' = CHR ''$'')
         then scan_fragments x w (tl cs) (fv @ [c, CHR ''$''])
         else scan_fragments x w cs (fv @ [c]))
      else
        (case cs of
           [] \<Rightarrow> Inl (Syntax_error ''$ must be followed by an identifier: '' w)
         | c' # cs' \<Rightarrow>
             if c' = CHR ''('' then
               (let v = takeWhile (\<lambda>c. c \<noteq> CHR '')'') cs';
                    rest = dropWhile (\<lambda>c. c \<noteq> CHR '')'') cs' in
                if rest = [] then Inl (Syntax_error (''missing '' @ [dquote, CHR '')'', dquote] @ '': '') w)
                else if \<not> is_standard_identifier x (drop (if startswith v ''.'' then 1 else 0) v)
                  then Inl (Syntax_error ''improper variable name '' w)
                else (case scan_fragments x w (tl rest) [] of
                        Inl e \<Rightarrow> Inl e
                      | Inr (fs, hv) \<Rightarrow> Inr (flush fv @ [mk_fragment True v] @ fs, True)))
             else if \<not> ident_start x c' then Inl (Syntax_error ''improper variable name '' w)
             else
               (let v = c' # takeWhile (in_name x) cs';
                    rest = dropWhile (in_name x) cs' in
                case scan_fragments x w rest [] of
                  Inl e \<Rightarrow> Inl e
                | Inr (fs, hv) \<Rightarrow> Inr (flush fv @ [mk_fragment True v] @ fs, True))))"
  by pat_completeness auto
termination
proof (relation "measure (\<lambda>(x, w, cs, fv). length cs)", goal_cases)
  case 1
  show ?case by simp
next
  case (2 x w c cs fv)
  then show ?case by (cases cs) auto
next
  case (3 x w c cs fv)
  then show ?case by simp
next
  case (4 x w c cs fv c' cs' v rest)
  have "length (dropWhile (\<lambda>c. c \<noteq> CHR '')'') cs') \<le> length cs'"
    by (rule length_dropWhile_le)
  with 4 show ?case by (cases "dropWhile (\<lambda>c. c \<noteq> CHR '')'') cs'") auto
next
  case (5 x w c cs fv c' cs' v rest)
  have "length (dropWhile (in_name x) cs') \<le> length cs'"
    by (rule length_dropWhile_le)
  with 5 show ?case by auto
qed

record variable_substitution_proxy =
  proxy_word :: word
  force_string :: bool
  have_variables :: bool
  fragments :: "variable_substitution_fragment list"

definition variable_substitution_proxy_init :: "'v ext \<Rightarrow> word \<Rightarrow> error + variable_substitution_proxy" where
  "variable_substitution_proxy_init x w =
     (case scan_fragments x w (word_value w) [] of
        Inl e \<Rightarrow> Inl e
      | Inr (fs, hv) \<Rightarrow>
          Inr \<lparr>proxy_word = w,
               force_string = (quote_token w \<noteq> None \<or> length fs > 1),
               have_variables = hv,
               fragments = fs\<rparr>)"

text \<open>
  The \<open>result\<close> slot of a fragment holds one word, or (for a variable when
  \<open>force_string\<close> is off) a list of words.
\<close>

datatype fragment_result = One_word word | Word_list "word list"

text \<open>
  \<open>get_new_words\<close>.  With \<open>force_string\<close> off it returns the result of the first
  fragment, a list of words that the caller appends; with it on, every result is one word
  and the values are concatenated.  A result of the other shape, or no fragment at all,
  is taken to raise.
\<close>

fun result_value :: "fragment_result \<Rightarrow> error + string" where
  "result_value (One_word w) = Inr (word_value w)"
| "result_value (Word_list ws) = Inl AttributeError"

fun result_values :: "fragment_result list \<Rightarrow> error + string list" where
  "result_values [] = Inr []"
| "result_values (r # rs) =
     (case result_value r of
        Inl e \<Rightarrow> Inl e
      | Inr v \<Rightarrow> (case result_values rs of Inl e \<Rightarrow> Inl e | Inr vs \<Rightarrow> Inr (v # vs)))"

definition get_new_words ::
  "variable_substitution_proxy \<Rightarrow> fragment_result list \<Rightarrow> error + word list" where
  "get_new_words proxy results =
     (if \<not> have_variables proxy then Inr [proxy_word proxy]
      else if \<not> force_string proxy then
        (case results of
           [] \<Rightarrow> Inl TypeError
         | One_word w # rs \<Rightarrow> Inl TypeError
         | Word_list ws # rs \<Rightarrow> Inr ws)
      else (case result_values results of
              Inl e \<Rightarrow> Inl e
            | Inr vs \<Rightarrow> Inr [mk_word (concat vs) (Some dquote)]))"

subsection \<open>Lexical lookup\<close>

type_synonym scope_object = "phil_scope \<times> obj list"

text \<open>The loop \<open>while self.primary_parent_scope is not None\<close> of \<open>lexical_get\<close>.\<close>

fun root_scope :: "heap \<Rightarrow> nat \<Rightarrow> scope_object \<Rightarrow> error + scope_object" where
  "root_scope h 0 self =
     (case primary_parent_scope (fst self) of None \<Rightarrow> Inr self | Some a \<Rightarrow> Inl Out_of_fuel)"
| "root_scope h (Suc n) self =
     (case primary_parent_scope (fst self) of None \<Rightarrow> Inr self | Some a \<Rightarrow> root_scope h n (h a))"

text \<open>
  The first loop of \<open>lexical_get\<close>, which collects the candidates.  Comparing a
  \<open>primary_id\<close> with a \<open>stop_id\<close> that is \<open>None\<close> is a \<open>TypeError\<close>.
\<close>

fun lexical_candidates :: "obj list \<Rightarrow> string \<Rightarrow> int option \<Rightarrow> error + obj list" where
  "lexical_candidates [] path stop_id = Inr []"
| "lexical_candidates (ob # obs) path stop_id =
     (let continue =
        (case lexical_candidates obs path stop_id of
           Inl e \<Rightarrow> Inl e
         | Inr cs \<Rightarrow>
             if is_definition ob then (if obj_name ob = path then Inr (ob # cs) else Inr cs)
             else if obj_name ob = path \<or> startswith path (obj_name ob @ ''.'') then Inr (ob # cs)
             else Inr cs)
      in case obj_primary_id ob of
           None \<Rightarrow> continue
         | Some i \<Rightarrow>
             (case stop_id of
                None \<Rightarrow> Inl TypeError
              | Some sid \<Rightarrow> if i \<ge> sid then Inr [] else continue))"

text \<open>
  \<open>lexical_get\<close>, and its second loop, which pops the candidates from the end (the list
  is handed over reversed).  A candidate whose name is not the path is a scope.
\<close>

fun lexical_get ::
  "heap \<Rightarrow> nat \<Rightarrow> scope_object \<Rightarrow> string \<Rightarrow> int option \<Rightarrow> bool \<Rightarrow> error + obj option"
and lexical_get_pop ::
  "heap \<Rightarrow> nat \<Rightarrow> obj list \<Rightarrow> string \<Rightarrow> int option \<Rightarrow> error + obj option"
where
  "lexical_get h 0 self path stop_id search_up = Inl Out_of_fuel"
| "lexical_get h (Suc n) self path stop_id search_up =
     (case (if startswith path ''.''
            then (case root_scope h n self of Inl e \<Rightarrow> Inl e | Inr r \<Rightarrow> Inr (r, drop 1 path))
            else Inr (self, path)) of
        Inl e \<Rightarrow> Inl e
      | Inr (self', path') \<Rightarrow>
          (case lexical_candidates (snd self') path' stop_id of
             Inl e \<Rightarrow> Inl e
           | Inr candidates \<Rightarrow>
               (case lexical_get_pop h n (rev candidates) path' stop_id of
                  Inl e \<Rightarrow> Inl e
                | Inr (Some ob) \<Rightarrow> Inr (Some ob)
                | Inr None \<Rightarrow>
                    if \<not> search_up then Inr None
                    else (case primary_parent_scope (fst self') of
                            None \<Rightarrow> Inr None
                          | Some a \<Rightarrow> lexical_get h n (h a) path' stop_id True))))"
| "lexical_get_pop h n [] path stop_id = Inr None"
| "lexical_get_pop h n (ob # obs) path stop_id =
     (if obj_name ob = path then Inr (Some ob)
      else (case ob of
              Definition d \<Rightarrow> Inl AttributeError
            | Scope s os \<Rightarrow>
                (case lexical_get h n (s, os) (drop (length (name s) + 1) path) stop_id False of
                   Inl e \<Rightarrow> Inl e
                 | Inr (Some r) \<Rightarrow> Inr (Some r)
                 | Inr None \<Rightarrow> lexical_get_pop h n obs path stop_id)))"

subsection \<open>\<open>definition.resolve_variables\<close>\<close>

text \<open>
  The word that stands for an environment variable carries the source info
  \<open>environment: "NAME"\<close>.
\<close>

definition environment_word :: "string \<Rightarrow> string \<Rightarrow> word" where
  "environment_word v var =
     \<lparr>word_value = v, quote_token = Some dquote, line_number = None,
      source_info = Some (''environment: '' @ [dquote] @ var @ [dquote])\<rparr>"

text \<open>
  \<open>resolve_variables\<close> with its loop over the words and its loop over the fragments of
  one word.  The recursive call on the definition a variable names is made with the
  default \<open>diff_mode=False\<close>.
\<close>

fun resolve_variables ::
  "'v ext \<Rightarrow> heap \<Rightarrow> nat \<Rightarrow> phil_definition \<Rightarrow> bool \<Rightarrow> error + phil_definition"
and resolve_words ::
  "'v ext \<Rightarrow> heap \<Rightarrow> nat \<Rightarrow> phil_definition \<Rightarrow> bool \<Rightarrow> word list \<Rightarrow> error + word list"
and resolve_fragments ::
  "'v ext \<Rightarrow> heap \<Rightarrow> nat \<Rightarrow> phil_definition \<Rightarrow> bool \<Rightarrow> word \<Rightarrow> bool \<Rightarrow>
   variable_substitution_fragment list \<Rightarrow> error + fragment_result list"
where
  "resolve_variables x h 0 self diff_mode = Inl Out_of_fuel"
| "resolve_variables x h (Suc n) self diff_mode =
     (case resolve_words x h n self diff_mode (words self) of
        Inl e \<Rightarrow> Inl e
      | Inr new_words \<Rightarrow> Inr (definition_customized_copy self None (Some new_words)))"
| "resolve_words x h n self diff_mode [] = Inr []"
| "resolve_words x h n self diff_mode (w # ws) =
     (if quote_token w = Some squote then
        (case resolve_words x h n self diff_mode ws of
           Inl e \<Rightarrow> Inl e
         | Inr rest \<Rightarrow> Inr (w # rest))
      else
        (case variable_substitution_proxy_init x w of
           Inl e \<Rightarrow> Inl e
         | Inr proxy \<Rightarrow>
             (case resolve_fragments x h n self diff_mode w (force_string proxy) (fragments proxy) of
                Inl e \<Rightarrow> Inl e
              | Inr results \<Rightarrow>
                  (case get_new_words proxy results of
                     Inl e \<Rightarrow> Inl e
                   | Inr new \<Rightarrow>
                       (case resolve_words x h n self diff_mode ws of
                          Inl e \<Rightarrow> Inl e
                        | Inr rest \<Rightarrow> Inr (new @ rest))))))"
| "resolve_fragments x h n self diff_mode w force [] = Inr []"
| "resolve_fragments x h n self diff_mode w force (f # fs) =
     (case
        (if \<not> is_variable f then Inr (One_word (mk_word (fragment_value f) (Some dquote)))
         else
           (case
              (case primary_parent_scope self of
                 None \<Rightarrow> Inr None
               | Some a \<Rightarrow>
                   (case lexical_get h n (h a) (fragment_value f) (primary_id self) True of
                      Inl e \<Rightarrow> Inl e
                    | Inr None \<Rightarrow> Inr None
                    | Inr (Some (Scope s os)) \<Rightarrow> Inl (Not_a_definition (fragment_value f) w)
                    | Inr (Some (Definition substitution_source)) \<Rightarrow>
                        (case resolve_variables x h n substitution_source False of
                           Inl e \<Rightarrow> Inl e
                         | Inr r \<Rightarrow> Inr (Some (words r))))) of
              Inl e \<Rightarrow> Inl e
            | Inr lexical_words \<Rightarrow>
                (case
                   (case lexical_words of
                      Some ws \<Rightarrow> Some ws
                    | None \<Rightarrow>
                        (case (if diff_mode then Some (''$'' @ fragment_value f)
                               else environ x (fragment_value f)) of
                           None \<Rightarrow> None
                         | Some env_var \<Rightarrow> Some [environment_word env_var (fragment_value f)])) of
                   None \<Rightarrow> Inl (Undefined_variable (fragment_value f) w)
                 | Some variable_words \<Rightarrow>
                     if \<not> force then Inr (Word_list variable_words)
                     else Inr (One_word (mk_word (join '' '' (map word_value variable_words))
                                           (Some dquote)))))) of
        Inl e \<Rightarrow> Inl e
      | Inr r \<Rightarrow>
          (case resolve_fragments x h n self diff_mode w force fs of
             Inl e \<Rightarrow> Inl e
           | Inr rs \<Rightarrow> Inr (r # rs)))"

section \<open>The value graph: \<open>scope_extract\<close>\<close>

text \<open>
  Attributes of a \<open>scope_extract\<close> are read with \<open>getattr\<close>.  The names that the class
  itself defines are all reserved identifiers, so for the name of a tree node \<open>getattr\<close> is
  a lookup among the attributes that were set.  A dictionary is kept as
  an association list: assigning replaces the entry or adds it at the end.
\<close>

type_synonym 'v attrs = "(string \<times> 'v pyobj) list"

fun dict_set :: "('k \<times> 'a) list \<Rightarrow> 'k \<Rightarrow> 'a \<Rightarrow> ('k \<times> 'a) list" where
  "dict_set [] k v = [(k, v)]"
| "dict_set ((k', v') # kvs) k v = (if k' = k then (k, v) # kvs else (k', v') # dict_set kvs k v)"

fun is_scope_extract :: "'v pyobj \<Rightarrow> bool" where
  "is_scope_extract (Scope_extract n c a) = True"
| "is_scope_extract v = False"

fun is_disabled_marker :: "'v pyobj \<Rightarrow> bool" where
  "is_disabled_marker Scope_extract_is_disabled = True"
| "is_disabled_marker v = False"

fun is_py_none :: "'v pyobj \<Rightarrow> bool" where
  "is_py_none PyNone = True"
| "is_py_none v = False"

text \<open>
  \<open>__phil_join__\<close>: the loop runs over \<open>other.__dict__\<close> and passes over the
  reserved identifiers in it.  For an \<open>other\<close> that is \<open>Auto\<close>, a
  \<open>scope_extract_list\<close> or the marker class, \<open>__dict__\<close> holds reserved identifiers
  only, so nothing is joined; \<open>None\<close> has no \<open>__dict__\<close>, and a value a converter
  produced is taken to have none.  After items were appended to a list, a leading
  \<open>None\<close> is deleted if the list has more than one member.
\<close>

definition join_lists :: "'v pyobj list \<Rightarrow> 'v pyobj list \<Rightarrow> 'v pyobj list" where
  "join_lists self_value other_value =
     (let l = self_value @ filter (\<lambda>item. \<not> is_py_none item) other_value in
      if length l > 1 \<and> is_py_none (hd l) then tl l else l)"

definition join_plain :: "'v attrs \<Rightarrow> string \<Rightarrow> 'v pyobj \<Rightarrow> error + 'v attrs" where
  "join_plain attrs key other_value =
     (case map_of attrs key of
        None \<Rightarrow> Inr (dict_set attrs key other_value)
      | Some PyNone \<Rightarrow> Inr (dict_set attrs key other_value)
      | Some (Scope_extract_list opt l) \<Rightarrow>
          (case other_value of
             Scope_extract_list opt' l' \<Rightarrow>
               Inr (dict_set attrs key (Scope_extract_list opt (join_lists l l')))
           | _ \<Rightarrow> Inl AssertionError)
      | Some v \<Rightarrow> Inr (dict_set attrs key other_value))"

definition attr_is_scope_extract :: "'v attrs \<Rightarrow> string \<Rightarrow> bool" where
  "attr_is_scope_extract attrs key =
     (case map_of attrs key of None \<Rightarrow> False | Some v \<Rightarrow> is_scope_extract v)"

fun phil_join :: "'v pyobj \<Rightarrow> 'v pyobj \<Rightarrow> error + 'v pyobj"
and phil_join_items :: "'v attrs \<Rightarrow> 'v attrs \<Rightarrow> error + 'v attrs"
where
  "phil_join self (Scope_extract n' c' items) =
     (case self of
        Scope_extract n c attrs \<Rightarrow>
          (case phil_join_items attrs items of
             Inl e \<Rightarrow> Inl e
           | Inr attrs' \<Rightarrow> Inr (Scope_extract n c attrs'))
      | _ \<Rightarrow> Inl AttributeError)"
| "phil_join self PyNone = Inl AttributeError"
| "phil_join self PyAuto = (if is_scope_extract self then Inr self else Inl AttributeError)"
| "phil_join self (PyVal v) = Inl AttributeError"
| "phil_join self (Scope_extract_list opt l) =
     (if is_scope_extract self then Inr self else Inl AttributeError)"
| "phil_join self Scope_extract_is_disabled =
     (if is_scope_extract self then Inr self else Inl AttributeError)"
| "phil_join_items attrs [] = Inr attrs"
| "phil_join_items attrs ((key, other_value) # rest) =
     (if is_reserved_identifier key then phil_join_items attrs rest
      else
        (case
           (if attr_is_scope_extract attrs key then
              (case phil_join (the (map_of attrs key)) other_value of
                 Inl e \<Rightarrow> Inl e
               | Inr joined \<Rightarrow> Inr (dict_set attrs key joined))
            else join_plain attrs key other_value) of
           Inl e \<Rightarrow> Inl e
         | Inr attrs' \<Rightarrow> phil_join_items attrs' rest))"

text \<open>\<open>__phil_set__\<close>, on the attributes of the receiver.\<close>

definition phil_set ::
  "'v ext \<Rightarrow> 'v attrs \<Rightarrow> string \<Rightarrow> bool option \<Rightarrow> bool option \<Rightarrow> 'v pyobj \<Rightarrow> error + 'v attrs"
  where
  "phil_set x attrs nm opt mult val =
     (if CHR ''.'' \<in> set nm then Inl AssertionError
      else if \<not> truthy mult then
        (let val' = (if is_disabled_marker val then PyNone else val) in
         case map_of attrs nm of
           None \<Rightarrow> Inr (dict_set attrs nm val')
         | Some node \<Rightarrow>
             if \<not> is_scope_extract val' \<or> \<not> is_scope_extract node
             then Inr (dict_set attrs nm val')
             else (case phil_join node val' of
                     Inl e \<Rightarrow> Inl e
                   | Inr joined \<Rightarrow> Inr (dict_set attrs nm joined)))
      else
        (let node = (case map_of attrs nm of None \<Rightarrow> Scope_extract_list opt [] | Some n \<Rightarrow> n);
             attrs' = (case map_of attrs nm of None \<Rightarrow> dict_set attrs nm node | Some n \<Rightarrow> attrs)
         in if \<not> is_disabled_marker val \<and> (\<not> is_py_none val \<or> opt \<noteq> Some True) then
              (case node of
                 Scope_extract_list o' l \<Rightarrow> Inr (dict_set attrs' nm (Scope_extract_list o' (l @ [val])))
               | PyVal v \<Rightarrow>
                   (case val_append x v val of
                      None \<Rightarrow> Inl AttributeError
                    | Some v' \<Rightarrow> Inr (dict_set attrs' nm (PyVal v')))
               | _ \<Rightarrow> Inl AttributeError)
            else Inr attrs'))"

text \<open>\<open>__phil_get__\<close>: \<open>None\<close> stands for \<open>scope_extract_attribute_error\<close>.\<close>

definition phil_get :: "'v attrs \<Rightarrow> string \<Rightarrow> error + 'v pyobj option" where
  "phil_get attrs nm = (if CHR ''.'' \<in> set nm then Inl AssertionError else Inr (map_of attrs nm))"

section \<open>Extract\<close>

text \<open>\<open>_type_from_words\<close> and \<open>definition.extract\<close>.\<close>

definition definition_extract :: "'v ext \<Rightarrow> phil_definition \<Rightarrow> error + 'v pyobj" where
  "definition_extract x d =
     (case type d of
        None \<Rightarrow> Inr (strings_from_words x (words d))
      | Some Auto_type \<Rightarrow> Inl (No_from_words (where_str d))
      | Some (Converters c) \<Rightarrow>
          (case from_words (converters_of x c) of
             None \<Rightarrow> Inl (No_from_words (where_str d))
           | Some f \<Rightarrow> f (words d) d))"

text \<open>\<open>extract\<close> of a definition or a scope, and the loop of \<open>scope.extract\<close>.\<close>

fun obj_extract :: "'v ext \<Rightarrow> obj \<Rightarrow> error + 'v pyobj"
and extract_loop :: "'v ext \<Rightarrow> obj list \<Rightarrow> 'v attrs \<Rightarrow> error + 'v attrs"
where
  "obj_extract x (Definition d) = definition_extract x d"
| "obj_extract x (Scope s os) =
     (case extract_loop x os [] of
        Inl e \<Rightarrow> Inl e
      | Inr attrs \<Rightarrow> Inr (Scope_extract (name s) (call s) attrs))"
| "extract_loop x [] attrs = Inr attrs"
| "extract_loop x (ob # obs) attrs =
     (if obj_is_template ob < 0 then extract_loop x obs attrs
      else
        (case (if obj_is_disabled ob \<or> obj_is_template ob > 0 then Inr Scope_extract_is_disabled
               else obj_extract x ob) of
           Inl e \<Rightarrow> Inl e
         | Inr val \<Rightarrow>
             (case phil_set x attrs (obj_name ob) (obj_optional ob) (obj_multiple ob) val of
                Inl e \<Rightarrow> Inl e
              | Inr attrs' \<Rightarrow> extract_loop x obs attrs')))"

section \<open>Format\<close>

definition definition_format :: "'v ext \<Rightarrow> phil_definition \<Rightarrow> 'v pyobj \<Rightarrow> error + phil_definition" where
  "definition_format x d python_object =
     (case
        (case type d of
           None \<Rightarrow> strings_as_words x python_object
         | Some Auto_type \<Rightarrow> Inl (No_as_words (where_str d))
         | Some (Converters c) \<Rightarrow>
             (case as_words (converters_of x c) of
                None \<Rightarrow> Inl (No_as_words (where_str d))
              | Some f \<Rightarrow> f python_object d)) of
        Inl e \<Rightarrow> Inl e
      | Inr ws \<Rightarrow> Inr (definition_customized_copy d None (Some ws)))"

text \<open>The first error of a list of results, or all the values.\<close>

fun collect :: "(error + 'a) list \<Rightarrow> error + 'a list" where
  "collect [] = Inr []"
| "collect (r # rs) =
     (case r of
        Inl e \<Rightarrow> Inl e
      | Inr v \<Rightarrow> (case collect rs of Inl e \<Rightarrow> Inl e | Inr vs \<Rightarrow> Inr (v # vs)))"

text \<open>
  \<open>format\<close> of a definition or a scope; the loop of \<open>scope.format\<close> over the master's
  objects, run together with the generator \<open>master_active_objects\<close>; and its inner loop
  over the \<open>python_object_i\<close>, for one master object.  \<open>done\<close> is the dictionary
  \<open>multiple_scopes_done\<close>.  Taking the length of, or iterating over, a value that is
  neither a \<open>scope_extract\<close> nor a \<open>scope_extract_list\<close> is taken to raise.
\<close>

type_synonym scopes_done = "(string \<times> bool) list"

fun obj_format :: "'v ext \<Rightarrow> obj \<Rightarrow> 'v pyobj \<Rightarrow> error + obj"
and format_loop ::
  "'v ext \<Rightarrow> obj list \<Rightarrow> names_object \<Rightarrow> scopes_done \<Rightarrow> 'v pyobj \<Rightarrow> error + obj list"
and format_each ::
  "'v ext \<Rightarrow> obj \<Rightarrow> 'v pyobj list \<Rightarrow> scopes_done \<Rightarrow> error + (obj list \<times> scopes_done)"
where
  "obj_format x (Definition d) python_object =
     (case definition_format x d python_object of Inl e \<Rightarrow> Inl e | Inr r \<Rightarrow> Inr (Definition r))"
| "obj_format x (Scope s os) python_object =
     (case format_loop x os [] [] python_object of
        Inl e \<Rightarrow> Inl e
      | Inr result \<Rightarrow> Inr (scope_customized_copy s os None (Some result)))"
| "format_loop x [] names done python_object = Inr []"
| "format_loop x (ob # obs) names done python_object =
     (case master_active_turn names ob of
        (names', Skip) \<Rightarrow> format_loop x obs names' done python_object
      | (names', Raised e) \<Rightarrow> Inl e
      | (names', Yielded u) \<Rightarrow>
          if truthy (obj_multiple ob) \<and> is_scope ob \<and> map_of done (obj_name ob) \<noteq> None
          then format_loop x obs names' done python_object
          else
            (let done1 = (if truthy (obj_multiple ob) \<and> is_scope ob
                          then dict_set done (obj_name ob) False else done) in
             case
               (case python_object of
                  PyNone \<Rightarrow>
                    (case obj_format x ob PyNone of Inl e \<Rightarrow> Inl e | Inr r \<Rightarrow> Inr ([r], done1))
                | PyAuto \<Rightarrow>
                    (case obj_format x ob PyAuto of Inl e \<Rightarrow> Inl e | Inr r \<Rightarrow> Inr ([r], done1))
                | Scope_extract n c a \<Rightarrow> format_each x ob [python_object] done1
                | Scope_extract_list opt l \<Rightarrow> format_each x ob l done1
                | PyVal v \<Rightarrow> Inl TypeError
                | Scope_extract_is_disabled \<Rightarrow> Inl TypeError) of
               Inl e \<Rightarrow> Inl e
             | Inr (rs, done2) \<Rightarrow>
                 (case format_loop x obs names' done2 python_object of
                    Inl e \<Rightarrow> Inl e
                  | Inr rest \<Rightarrow> Inr (rs @ rest))))"
| "format_each x ob [] done = Inr ([], done)"
| "format_each x ob (python_object_i # rest) done =
     (case (case python_object_i of
              Scope_extract n c attrs \<Rightarrow> phil_get attrs (obj_name ob)
            | _ \<Rightarrow> Inl AttributeError) of
        Inl e \<Rightarrow> Inl e
      | Inr None \<Rightarrow> format_each x ob rest done
      | Inr (Some sub_python_object) \<Rightarrow>
          (case
             (if \<not> truthy (obj_multiple ob) then
                (case obj_format x ob sub_python_object of
                   Inl e \<Rightarrow> Inl e
                 | Inr r \<Rightarrow> Inr ([r], done))
              else
                (case sub_python_object of
                   Scope_extract_list opt l \<Rightarrow>
                     if length l = 0 then Inr ([set_is_template ob 1], done)
                     else
                       (let first = \<not> (case map_of done (obj_name ob) of None \<Rightarrow> True | Some b \<Rightarrow> b) in
                        case collect (map (obj_format x ob) l) of
                          Inl e \<Rightarrow> Inl e
                        | Inr rs \<Rightarrow>
                            Inr ((if first then [set_is_template ob (- 1)] else []) @ rs,
                                 (if first then dict_set done (obj_name ob) True else done)))
                 | _ \<Rightarrow> Inl TypeError)) of
             Inl e \<Rightarrow> Inl e
           | Inr (rs, done1) \<Rightarrow>
               (case format_each x ob rest done1 of
                  Inl e \<Rightarrow> Inl e
                | Inr (rs2, done2) \<Rightarrow> Inr (rs @ rs2, done2))))"

text \<open>\<open>extract_format(source)\<close>; \<open>source=None\<close> stands for the receiver itself.\<close>

definition extract_format :: "'v ext \<Rightarrow> obj \<Rightarrow> obj option \<Rightarrow> error + obj" where
  "extract_format x self source =
     (case obj_extract x (case source of None \<Rightarrow> self | Some src \<Rightarrow> src) of
        Inl e \<Rightarrow> Inl e
      | Inr python_object \<Rightarrow> obj_format x self python_object)"

section \<open>Serialisation: \<open>show\<close> and \<open>as_str\<close>\<close>

text \<open>
  \<open>show\<close> is modelled for the arguments \<open>as_str()\<close> passes by default:
  \<open>expert_level=None\<close>, \<open>attributes_level=0\<close> (so \<open>show_attributes\<close> returns at once)
  and \<open>print_width=None\<close>, which stands for \<open>default_print_width\<close>.  The result is the
  text written to \<open>out\<close>.
\<close>

definition default_print_width :: nat where
  "default_print_width = 79"

definition newline :: string where
  "newline = [CHR 0x0A]"

text \<open>The loop over the words of \<open>definition.show\<close>: the text printed so far and the line.\<close>

fun show_words ::
  "'v ext \<Rightarrow> nat \<Rightarrow> string \<Rightarrow> word list \<Rightarrow> string \<Rightarrow> string \<Rightarrow> string \<times> string" where
  "show_words x print_width indent [] line out = (out, line)"
| "show_words x print_width indent (w # ws) line out =
     (let line_plus = line @ '' '' @ word_str x w in
      if length line_plus > print_width - 2 \<and> length line > length indent
      then show_words x print_width indent ws (indent @ '' '' @ word_str x w)
             (out @ line @ '' '' @ [backslash] @ newline)
      else show_words x print_width indent ws line_plus out)"

definition definition_show :: "'v ext \<Rightarrow> phil_definition \<Rightarrow> string list \<Rightarrow> string \<Rightarrow> string" where
  "definition_show x d merged_names prefix =
     (if is_template d < 0 then []
      else if truthy (deprecated d) then []
      else
        (let hash = (if is_disabled d then ''!'' else []);
             line0 = prefix @ hash @ join ''.'' (merged_names @ [name d]);
             line = (if name d \<noteq> ''include'' then line0 @ '' ='' else line0);
             indent = replicate (length line) CHR '' ''
         in case show_words x default_print_width indent (words d) line [] of
              (out, line') \<Rightarrow> out @ line' @ newline))"

fun obj_show :: "'v ext \<Rightarrow> obj \<Rightarrow> string list \<Rightarrow> string \<Rightarrow> error + string"
and show_objects :: "'v ext \<Rightarrow> obj list \<Rightarrow> string list \<Rightarrow> string \<Rightarrow> error + string"
where
  "obj_show x (Definition d) merged_names prefix = Inr (definition_show x d merged_names prefix)"
| "obj_show x (Scope s os) merged_names prefix =
     (if is_template s < 0 then Inr []
      else if length (name s) = 0 then
        (if length merged_names \<noteq> 0 then Inl AssertionError
         else show_objects x os merged_names prefix)
      else if length os > 0 \<and> (case hd os of Definition d \<Rightarrow> merge_names d
                                             | Scope s' os' \<Rightarrow> merge_names s')
        then show_objects x os (merged_names @ [name s]) prefix
      else
        (let hash = (if is_disabled s then ''!'' else []);
             merged_name = join ''.'' (merged_names @ [name s])
         in case show_objects x os [] (prefix @ ''  '') of
              Inl e \<Rightarrow> Inl e
            | Inr body \<Rightarrow>
                Inr (prefix @ hash @ merged_name @ '' {'' @ newline @ body @ prefix @ ''}'' @ newline)))"
| "show_objects x [] merged_names prefix = Inr []"
| "show_objects x (ob # obs) merged_names prefix =
     (case obj_show x ob merged_names prefix of
        Inl e \<Rightarrow> Inl e
      | Inr t \<Rightarrow>
          (case show_objects x obs merged_names prefix of
             Inl e \<Rightarrow> Inl e
           | Inr ts \<Rightarrow> Inr (t @ ts)))"

definition as_str :: "'v ext \<Rightarrow> obj \<Rightarrow> error + string" where
  "as_str x ob = obj_show x ob [] []"

section \<open>Lookup by path\<close>

text \<open>
  \<open>get_without_substitution\<close>.  Python tells objects apart by identity; here every
  object that is returned comes with its position below the receiver (the indices that
  lead to it through the \<open>objects\<close> lists, \<open>[]\<close> for the receiver itself), which
  identifies it as long as no object is a member of two lists or twice of one.
  \<open>gws_objects\<close> is the loop over the active objects, from index \<open>i\<close> on.
\<close>

type_synonym located = "nat list \<times> obj"

definition below :: "nat \<Rightarrow> located list \<Rightarrow> located list" where
  "below i rs = map (\<lambda>(q, ob). (i # q, ob)) rs"

definition enumerate_objects :: "obj list \<Rightarrow> located list" where
  "enumerate_objects objs = map (\<lambda>(i, ob). ([i], ob)) (enumerate 0 objs)"

fun get_without_substitution ::
  "heap \<Rightarrow> nat \<Rightarrow> obj \<Rightarrow> string \<Rightarrow> string option \<Rightarrow> error + located list"
and gws_objects ::
  "heap \<Rightarrow> nat \<Rightarrow> obj list \<Rightarrow> nat \<Rightarrow> string \<Rightarrow> string option \<Rightarrow> error + located list"
where
  "get_without_substitution h fuel (Definition d) path a_path =
     (if is_disabled d \<or> (name d \<noteq> path \<and> (a_path = None \<or> Some (name d) \<noteq> a_path))
      then Inr []
      else Inr [([], Definition d)])"
| "get_without_substitution h fuel (Scope s os) path a_path =
     (if is_disabled s then Inr []
      else if length (name s) = 0 then
        (if length path = 0 then Inr (enumerate_objects os)
         else gws_objects h fuel os 0 path a_path)
      else if name s = path \<or> Some (name s) = a_path then Inr [([], Scope s os)]
      else if startswith path (name s @ ''.'')
        then gws_objects h fuel os 0 (drop (length (name s) + 1) path) a_path
      else
        (case a_path of
           Some al \<Rightarrow>
             (case full_path h fuel (name s) (primary_parent_scope s) of
                Inl e \<Rightarrow> Inl e
              | Inr fp \<Rightarrow>
                  if startswith fp al
                  then gws_objects h fuel os 0 (drop (length (name s) + 1) path) a_path
                  else gws_objects h fuel os 0 path a_path)
         | None \<Rightarrow> Inr []))"
| "gws_objects h fuel [] i path a_path = Inr []"
| "gws_objects h fuel (ob # obs) i path a_path =
     (if obj_is_disabled ob then gws_objects h fuel obs (Suc i) path a_path
      else
        (case get_without_substitution h fuel ob path a_path of
           Inl e \<Rightarrow> Inl e
         | Inr rs \<Rightarrow>
             (case gws_objects h fuel obs (Suc i) path a_path of
                Inl e \<Rightarrow> Inl e
              | Inr rest \<Rightarrow> Inr (below i rs @ rest))))"

text \<open>
  \<open>get(path, with_substitution=False, alias_path)\<close> followed by \<open>active_objects()\<close>: the
  scope that \<open>get\<close> wraps around the objects it found has the name \<open>""\<close> and only holds
  them.
\<close>

definition get_active :: "heap \<Rightarrow> nat \<Rightarrow> obj \<Rightarrow> string \<Rightarrow> string option \<Rightarrow> error + located list" where
  "get_active h fuel self path a_path =
     (case get_without_substitution h fuel self path a_path of
        Inl e \<Rightarrow> Inl e
      | Inr rs \<Rightarrow> Inr (filter (\<lambda>(q, ob). \<not> obj_is_disabled ob) rs))"

section \<open>Fetch\<close>

text \<open>
  A fetch may emit deprecation warnings before it returns or raises: its outcome is the
  list of warnings emitted and the result or the error.
\<close>

type_synonym 'a res = "warning list \<times> (error + 'a)"

definition prepend :: "warning list \<Rightarrow> 'a res \<Rightarrow> 'a res" where
  "prepend ws r = (ws @ fst r, snd r)"

subsection \<open>Fetching a definition\<close>

definition deprecation_message :: "string \<Rightarrow> string" where
  "deprecation_message fp = fp @ '' is deprecated - not recommended for use.''"

text \<open>
  \<open>definition.fetch_value\<close>.  \<open>type_fetch\<close> is the \<open>fetch\<close> method of the type, if
  the type has one; \<open>None\<close> and \<open>Auto\<close> have none.
\<close>

definition fetch_value ::
  "'v ext \<Rightarrow> heap \<Rightarrow> nat \<Rightarrow> phil_definition \<Rightarrow> obj \<Rightarrow> bool \<Rightarrow> bool \<Rightarrow> obj option res" where
  "fetch_value x h fuel self source diff_mode skip_incompatible_objects =
     (case source of
        Scope s os \<Rightarrow>
          if skip_incompatible_objects then ([], Inr (Some (Definition self)))
          else ([], Inl (Incompatible_definition_vs_scope
                           (name self) (where_str self) (name s) (where_str s)))
      | Definition src \<Rightarrow>
          (case resolve_variables x h fuel src diff_mode of
             Inl e \<Rightarrow> ([], Inl e)
           | Inr source' \<Rightarrow>
               if truthy (deprecated self) \<and>
                  strings_from_words x (words source') = strings_from_words x (words self)
               then ([], Inr None)
               else
                 (case (if truthy (deprecated self)
                        then (case full_path h fuel (name self) (primary_parent_scope self) of
                                Inl e \<Rightarrow> Inl e
                              | Inr fp \<Rightarrow> Inr [PhilDeprecationWarning (deprecation_message fp)])
                        else Inr []) of
                    Inl e \<Rightarrow> ([], Inl e)
                  | Inr ws \<Rightarrow>
                      (ws,
                       case (case type self of
                               Some (Converters c) \<Rightarrow>
                                 (case fetch (converters_of x c) of
                                    None \<Rightarrow> None
                                  | Some type_fetch \<Rightarrow>
                                      Some (if phil_type (converters_of x c) = ''choice''
                                            then type_fetch (words source') self
                                                   (Some skip_incompatible_objects)
                                            else type_fetch (words source') self None))
                             | _ \<Rightarrow> None) of
                         None \<Rightarrow>
                           Inr (Some (Definition
                                  (definition_customized_copy self None (Some (words source')))))
                       | Some r \<Rightarrow> r))))"

text \<open>The canonical serialised form: \<open>self.extract_format(source).as_str()\<close>.\<close>

definition canonical_str :: "'v ext \<Rightarrow> obj \<Rightarrow> obj option \<Rightarrow> error + string" where
  "canonical_str x self source =
     (case extract_format x self source of
        Inl e \<Rightarrow> Inl e
      | Inr formatted \<Rightarrow> as_str x formatted)"

definition fetch_diff ::
  "'v ext \<Rightarrow> heap \<Rightarrow> nat \<Rightarrow> phil_definition \<Rightarrow> obj \<Rightarrow> bool \<Rightarrow> obj option res" where
  "fetch_diff x h fuel self source skip_incompatible_objects =
     (case fetch_value x h fuel self source True skip_incompatible_objects of
        (ws, Inl e) \<Rightarrow> (ws, Inl e)
      | (ws, Inr result) \<Rightarrow>
          (ws,
           case canonical_str x (Definition self) result of
             Inl e \<Rightarrow> Inl e
           | Inr result_as_str \<Rightarrow>
               (case canonical_str x (Definition self) None of
                  Inl e \<Rightarrow> Inl e
                | Inr self_as_str \<Rightarrow>
                    if result_as_str = self_as_str then Inr None else Inr result)))"

definition definition_fetch ::
  "'v ext \<Rightarrow> heap \<Rightarrow> nat \<Rightarrow> phil_definition \<Rightarrow> obj \<Rightarrow> bool \<Rightarrow> bool \<Rightarrow> obj option res" where
  "definition_fetch x h fuel self source diff skip_incompatible_objects =
     (if diff then fetch_diff x h fuel self source skip_incompatible_objects
      else fetch_value x h fuel self source False skip_incompatible_objects)"

subsection \<open>The parts of \<open>scope.fetch\<close>\<close>

text \<open>The first loop: the objects of all the sources, in order.\<close>

fun combine_sources :: "phil_scope \<Rightarrow> obj list \<Rightarrow> bool \<Rightarrow> error + obj list" where
  "combine_sources self [] skip = Inr []"
| "combine_sources self (source # sources) skip =
     (if obj_name source \<noteq> name self then Inl AssertionError
      else
        (case source of
           Definition d \<Rightarrow>
             if skip then combine_sources self sources skip
             else Inl (Incompatible_scope_vs_definition
                         (name self) (where_str self) (name d) (where_str d))
         | Scope s os \<Rightarrow>
             (case combine_sources self sources skip of
                Inl e \<Rightarrow> Inl e
              | Inr rest \<Rightarrow> Inr (os @ rest))))"

definition fetch_path :: "phil_scope \<Rightarrow> obj \<Rightarrow> string" where
  "fetch_path self master_object =
     (if length (name self) = 0 then obj_name master_object
      else name self @ ''.'' @ obj_name master_object)"

text \<open>
  The loop over the matching sources for a definition that is not multiple:
  \<open>result_object\<close> is assigned in every turn.  \<open>fetch_mo\<close> is \<open>master_object.fetch\<close>.
\<close>

fun fetch_each_keep_last ::
  "(obj list \<Rightarrow> obj option res) \<Rightarrow> obj list \<Rightarrow> obj option \<Rightarrow> obj option res" where
  "fetch_each_keep_last fetch_mo [] result_object = ([], Inr result_object)"
| "fetch_each_keep_last fetch_mo (matching_source # rest) result_object =
     (case fetch_mo [matching_source] of
        (ws, Inl e) \<Rightarrow> (ws, Inl e)
      | (ws, Inr r) \<Rightarrow> prepend ws (fetch_each_keep_last fetch_mo rest r))"

text \<open>
  The branch for a master object that is not multiple; the result is what is appended to
  \<open>result_objects\<close>.
\<close>

definition fetch_single ::
  "bool \<Rightarrow> obj \<Rightarrow> (obj list \<Rightarrow> obj option res) \<Rightarrow> obj list \<Rightarrow> obj list res" where
  "fetch_single diff master_object fetch_mo matching =
     (case (if is_definition master_object
            then fetch_each_keep_last fetch_mo matching None
            else (case fetch_mo matching of
                    (ws, Inl e) \<Rightarrow> (ws, Inl e)
                  | (ws, Inr None) \<Rightarrow> (ws, Inl AttributeError)
                  | (ws, Inr (Some (Definition d))) \<Rightarrow> (ws, Inl AttributeError)
                  | (ws, Inr (Some (Scope s os))) \<Rightarrow>
                      if diff \<and> length os = 0 then (ws, Inr None)
                      else (ws, Inr (Some (Scope s os))))) of
        (ws, Inl e) \<Rightarrow> (ws, Inl e)
      | (ws, Inr (Some result_object)) \<Rightarrow> (ws, Inr [result_object])
      | (ws, Inr None) \<Rightarrow>
          if \<not> diff \<and> \<not> obj_deprecated master_object then (ws, Inr [master_object])
          else (ws, Inr []))"

text \<open>
  The branch for a multiple master object.  \<open>processed\<close> is the dictionary
  \<open>processed_as_str\<close>, \<open>result_objs\<close> the list of that name, in which \<open>None\<close> marks a
  member that was replaced.  A candidate comes with \<open>from_master\<close>.  In diff mode the
  candidate of a scope must have \<open>objects\<close>.
\<close>

type_synonym processed = "(string \<times> int) list"

definition diff_skips :: "bool \<Rightarrow> obj \<Rightarrow> obj option \<Rightarrow> error + bool" where
  "diff_skips diff master_object candidate =
     (if diff then
        (if is_scope master_object then
           (case candidate of
              Some (Scope s os) \<Rightarrow> Inr (length os = 0)
            | _ \<Rightarrow> Inl AttributeError)
         else Inr (candidate = None))
      else Inr False)"

fun fetch_candidates ::
  "'v ext \<Rightarrow> bool \<Rightarrow> obj \<Rightarrow> string \<Rightarrow> (obj list \<Rightarrow> obj option res) \<Rightarrow> (bool \<times> obj) list \<Rightarrow>
   processed \<Rightarrow> obj option list \<Rightarrow> (processed \<times> obj option list) res" where
  "fetch_candidates x diff master_object master_as_str fetch_mo [] processed result_objs =
     ([], Inr (processed, result_objs))"
| "fetch_candidates x diff master_object master_as_str fetch_mo ((from_master, matching_source) # rest)
     processed result_objs =
     (case fetch_mo [matching_source] of
        (ws, Inl e) \<Rightarrow> (ws, Inl e)
      | (ws, Inr candidate) \<Rightarrow>
          prepend ws
            (case diff_skips diff master_object candidate of
               Inl e \<Rightarrow> ([], Inl e)
             | Inr True \<Rightarrow>
                 fetch_candidates x diff master_object master_as_str fetch_mo rest processed result_objs
             | Inr False \<Rightarrow>
                 (case canonical_str x master_object candidate of
                    Inl e \<Rightarrow> ([], Inl e)
                  | Inr candidate_as_str \<Rightarrow>
                      if candidate_as_str = master_as_str
                      then fetch_candidates x diff master_object master_as_str fetch_mo rest
                             processed result_objs
                      else if map_of processed candidate_as_str = Some (- 1)
                      then fetch_candidates x diff master_object master_as_str fetch_mo rest
                             processed result_objs
                      else
                        (let result_objs' =
                               (case map_of processed candidate_as_str of
                                  None \<Rightarrow> result_objs
                                | Some prev_index \<Rightarrow> result_objs[nat prev_index := None])
                         in if diff \<and> from_master
                            then fetch_candidates x diff master_object master_as_str fetch_mo rest
                                   (dict_set processed candidate_as_str (- 1)) result_objs'
                            else fetch_candidates x diff master_object master_as_str fetch_mo rest
                                   (dict_set processed candidate_as_str (int (length result_objs')))
                                   (result_objs' @ [candidate])))))"

definition template_marker :: "obj \<Rightarrow> processed \<Rightarrow> obj" where
  "template_marker master_object processed =
     set_is_template master_object
       (if obj_optional master_object = Some False then 0
        else if length processed = 0 then 1
        else - 1)"

definition present :: "obj option list \<Rightarrow> obj list" where
  "present result_objs = concat (map (\<lambda>r. case r of None \<Rightarrow> [] | Some ob \<Rightarrow> [ob]) result_objs)"

text \<open>
  \<open>self_located\<close> are the active objects \<open>self.get(path)\<close> found, \<open>k\<close> is the index
  of the master object in \<open>self.objects\<close>: the object at position \<open>[k]\<close> is the master
  object itself and is passed over.
\<close>

definition fetch_multiple ::
  "'v ext \<Rightarrow> bool \<Rightarrow> obj \<Rightarrow> nat \<Rightarrow> (obj list \<Rightarrow> obj option res) \<Rightarrow> string \<Rightarrow>
   located list \<Rightarrow> obj list \<Rightarrow> obj list res" where
  "fetch_multiple x diff master_object k fetch_mo master_as_str self_located matching =
     (let from_self = map (\<lambda>(q, ob). (True, ob)) (filter (\<lambda>(q, ob). q \<noteq> [k]) self_located);
          from_sources = map (\<lambda>ob. (False, ob)) matching
      in case fetch_candidates x diff master_object master_as_str fetch_mo
                (from_self @ from_sources) [] [] of
           (ws, Inl e) \<Rightarrow> (ws, Inl e)
         | (ws, Inr (processed, result_objs)) \<Rightarrow>
             (ws, Inr ((if \<not> diff then [template_marker master_object processed] else [])
                       @ present result_objs)))"

text \<open>
  One turn of the main loop of \<open>scope.fetch\<close>, for the master object at index \<open>k\<close> of
  \<open>self.objects\<close>; \<open>source\<close> is the copy of \<open>self\<close> that holds the objects of the
  sources.
\<close>

definition fetch_master_object ::
  "'v ext \<Rightarrow> heap \<Rightarrow> nat \<Rightarrow> bool \<Rightarrow> phil_scope \<Rightarrow> obj list \<Rightarrow> obj \<Rightarrow> nat \<Rightarrow> obj \<Rightarrow>
   (obj list \<Rightarrow> obj option res) \<Rightarrow> obj list res" where
  "fetch_master_object x h fuel diff self objs source k master_object fetch_mo =
     (let path = fetch_path self master_object in
      case alias_path h fuel master_object of
        Inl e \<Rightarrow> ([], Inl e)
      | Inr a_path \<Rightarrow>
          (case get_active h fuel source path a_path of
             Inl e \<Rightarrow> ([], Inl e)
           | Inr matching_sources \<Rightarrow>
               if \<not> truthy (obj_multiple master_object)
               then fetch_single diff master_object fetch_mo (map snd matching_sources)
               else
                 (case canonical_str x master_object None of
                    Inl e \<Rightarrow> ([], Inl e)
                  | Inr master_as_str \<Rightarrow>
                      (case get_active h fuel (Scope self objs) path None of
                         Inl e \<Rightarrow> ([], Inl e)
                       | Inr self_located \<Rightarrow>
                           fetch_multiple x diff master_object k fetch_mo master_as_str
                             self_located (map snd matching_sources)))))"

subsection \<open>\<open>fetch\<close>\<close>

text \<open>
  \<open>master.fetch(...)\<close> for a definition or a scope, with \<open>track_unused_definitions\<close>
  off.  The sources are given as a list: \<open>fetch(source=s)\<close> is the list \<open>[s]\<close>,
  \<open>fetch()\<close> the empty list.  A definition takes exactly one \<open>source\<close>.
  \<open>fetch_loop\<close> is the main loop of \<open>scope.fetch\<close>, run together with the generator
  \<open>master_active_objects\<close>; \<open>k\<close> is the index of the next object.
\<close>

function obj_fetch ::
  "'v ext \<Rightarrow> heap \<Rightarrow> nat \<Rightarrow> bool \<Rightarrow> bool \<Rightarrow> obj \<Rightarrow> obj list \<Rightarrow> obj option res"
and fetch_loop ::
  "'v ext \<Rightarrow> heap \<Rightarrow> nat \<Rightarrow> bool \<Rightarrow> bool \<Rightarrow> phil_scope \<Rightarrow> obj list \<Rightarrow> obj \<Rightarrow>
   names_object \<Rightarrow> nat \<Rightarrow> obj list \<Rightarrow> obj list res"
where
  "obj_fetch x h fuel diff skip (Definition d) sources =
     (case sources of
        [source] \<Rightarrow> definition_fetch x h fuel d source diff skip
      | _ \<Rightarrow> ([], Inl TypeError))"
| "obj_fetch x h fuel diff skip (Scope s objs) sources =
     (case combine_sources s sources skip of
        Inl e \<Rightarrow> ([], Inl e)
      | Inr combined_objects \<Rightarrow>
          (case fetch_loop x h fuel diff skip s objs
                  (scope_customized_copy s objs None (Some combined_objects)) [] 0 objs of
             (ws, Inl e) \<Rightarrow> (ws, Inl e)
           | (ws, Inr result_objects) \<Rightarrow>
               (ws, Inr (Some (scope_customized_copy s objs None (Some result_objects))))))"
| "fetch_loop x h fuel diff skip self objs source names k [] = ([], Inr [])"
| "fetch_loop x h fuel diff skip self objs source names k (master_object # rest) =
     (case master_active_turn names master_object of
        (names', Skip) \<Rightarrow> fetch_loop x h fuel diff skip self objs source names' (Suc k) rest
      | (names', Raised e) \<Rightarrow> ([], Inl e)
      | (names', Yielded u) \<Rightarrow>
          (case fetch_master_object x h fuel diff self objs source k master_object
                  (\<lambda>srcs. obj_fetch x h fuel diff skip master_object srcs) of
             (ws, Inl e) \<Rightarrow> (ws, Inl e)
           | (ws, Inr rs) \<Rightarrow>
               (case fetch_loop x h fuel diff skip self objs source names' (Suc k) rest of
                  (ws', Inl e) \<Rightarrow> (ws @ ws', Inl e)
                | (ws', Inr rs') \<Rightarrow> (ws @ ws', Inr (rs @ rs')))))"
  by pat_completeness auto
termination
  by (relation "measure (\<lambda>p. case p of
          Inl (x, h, fuel, diff, skip, master, sources) \<Rightarrow> size master
        | Inr (x, h, fuel, diff, skip, self, objs, source, names, k, rest) \<Rightarrow> size_list size rest)")
     auto

section \<open>Concrete inputs\<close>

text \<open>
  The constructors with every keyword argument at its default.
\<close>

definition definition_new :: "string \<Rightarrow> word list \<Rightarrow> phil_definition" where
  "definition_new n ws =
     \<lparr>name = n, primary_id = None, primary_parent_scope = None, is_disabled = False,
      is_template = 0, where_str = [], merge_names = False, help_attr = None, caption = None,
      short_caption = None, optional = None, multiple = None, style = None,
      expert_level = None, alias_attr = None,
      words = ws, type = None, input_size = None, deprecated = None\<rparr>"

definition scope_new :: "string \<Rightarrow> phil_scope" where
  "scope_new n =
     \<lparr>name = n, primary_id = None, primary_parent_scope = None, is_disabled = False,
      is_template = 0, where_str = [], merge_names = False, help_attr = None, caption = None,
      short_caption = None, optional = None, multiple = None, style = None,
      expert_level = None, alias_attr = None,
      call = None, sequential_format = None, disable_add = None, disable_delete = None\<rparr>"

fun scope_object :: "obj \<Rightarrow> scope_object" where
  "scope_object (Scope s os) = (s, os)"
| "scope_object (Definition d) = (scope_new [], [])"

text \<open>
  An instance of the surroundings, on which the model is run for the concrete cases below.
  Identifiers start with a letter or an underscore and go on with letters, underscores,
  digits and dots; the only environment variable is \<open>HOME=/root\<close>; a definition without a
  type has the list of the values of its words as its value (or \<open>None\<close> or \<open>Auto\<close> for
  the single unquoted word of that spelling), and a value is written back unquoted when it
  is an identifier and in double quotes when it is not; \<open>str(word)\<close> is the value between
  its quotes; no type has a method.
\<close>

definition letters :: string where
  "letters = ''_ABCDEFGHIJKLMNOPQRSTUVWXYZabcdefghijklmnopqrstuvwxyz''"

definition std_identifier :: "string \<Rightarrow> bool" where
  "std_identifier s =
     (s \<noteq> [] \<and> hd s \<in> set letters \<and> list_all (\<lambda>c. c \<in> set (letters @ ''.0123456789'')) (tl s))"

definition is_plain :: "string \<Rightarrow> word list \<Rightarrow> bool" where
  "is_plain v ws = (case ws of [w] \<Rightarrow> quote_token w = None \<and> word_value w = v | _ \<Rightarrow> False)"

definition example_from_words :: "word list \<Rightarrow> string list pyobj" where
  "example_from_words ws =
     (if is_plain ''None'' ws then PyNone
      else if is_plain ''Auto'' ws then PyAuto
      else PyVal (map word_value ws))"

definition example_as_words :: "string list pyobj \<Rightarrow> error + word list" where
  "example_as_words v =
     (case v of
        PyNone \<Rightarrow> Inr [mk_word ''None'' None]
      | PyAuto \<Rightarrow> Inr [mk_word ''Auto'' None]
      | PyVal vs \<Rightarrow>
          Inr (map (\<lambda>s. if std_identifier s then mk_word s None else mk_word s (Some dquote)) vs)
      | _ \<Rightarrow> Inl TypeError)"

definition example_word_str :: "word \<Rightarrow> string" where
  "example_word_str w =
     (case quote_token w of None \<Rightarrow> word_value w | Some q \<Rightarrow> [q] @ word_value w @ [q])"

definition example_environ :: "string \<Rightarrow> string option" where
  "example_environ n = (if n = ''HOME'' then Some ''/root'' else None)"

definition example_ext :: "(string list) ext" where
  "example_ext =
     \<lparr>environ = example_environ,
      ident_start = (\<lambda>c. c \<in> set letters),
      ident_cont = (\<lambda>c. c \<in> set (letters @ ''.0123456789'')),
      is_standard_identifier = std_identifier,
      strings_from_words = example_from_words,
      strings_as_words = example_as_words,
      converters_of = (\<lambda>c. \<lparr>phil_type = c, fetch = None, from_words = None, as_words = None\<rparr>),
      word_str = example_word_str,
      val_append = (\<lambda>v p. None)\<rparr>"

subsection \<open>The trees of \<open>a.b=1\<close>, \<open>a.c=2\<close> and of \<open>a.b=5\<close>\<close>

text \<open>
  The parser is not part of the sources at hand.  It hands every definition it reads to
  \<open>scope.adopt\<close>, which turns the dotted name \<open>a.b\<close> into a new scope \<open>a\<close> that holds
  the definition \<open>b\<close> with \<open>merge_names\<close> set: the master text gives a root scope with
  two scopes \<open>a\<close>, one per line.  The root has the \<open>primary_id\<close> \<open>0\<close>, the definitions
  are numbered from \<open>1\<close>.  The heap holds the master's root and scopes at the addresses
  \<open>0\<close>, \<open>1\<close>, \<open>2\<close> and the source's at \<open>3\<close>, \<open>4\<close>.
\<close>

definition leaf :: "string \<Rightarrow> string \<Rightarrow> int \<Rightarrow> addr \<Rightarrow> obj" where
  "leaf n v i parent =
     Definition ((definition_new n [mk_word v None])
        \<lparr>primary_id := Some i, primary_parent_scope := Some parent, merge_names := True\<rparr>)"

definition c1_master_a1 :: obj where
  "c1_master_a1 = Scope ((scope_new ''a'')\<lparr>primary_parent_scope := Some 0\<rparr>) [leaf ''b'' ''1'' 1 1]"

definition c1_master_a2 :: obj where
  "c1_master_a2 = Scope ((scope_new ''a'')\<lparr>primary_parent_scope := Some 0\<rparr>) [leaf ''c'' ''2'' 2 2]"

definition c1_master :: obj where
  "c1_master = Scope ((scope_new [])\<lparr>primary_id := Some 0\<rparr>) [c1_master_a1, c1_master_a2]"

definition c1_source_a :: obj where
  "c1_source_a = Scope ((scope_new ''a'')\<lparr>primary_parent_scope := Some 3\<rparr>) [leaf ''b'' ''5'' 1 4]"

definition c1_source :: obj where
  "c1_source = Scope ((scope_new [])\<lparr>primary_id := Some 0\<rparr>) [c1_source_a]"

text \<open>
  The same texts with the two definitions of the master held by one scope \<open>a\<close> (the
  grouping \<open>a { b=1 c=2 }\<close>), at the addresses \<open>5\<close> (root) and \<open>6\<close>.
\<close>

definition c1_grouped_a :: obj where
  "c1_grouped_a = Scope ((scope_new ''a'')\<lparr>primary_parent_scope := Some 5\<rparr>)
      [leaf ''b'' ''1'' 1 6, leaf ''c'' ''2'' 2 6]"

definition c1_grouped :: obj where
  "c1_grouped = Scope ((scope_new [])\<lparr>primary_id := Some 0\<rparr>) [c1_grouped_a]"

definition c1_grouped_result :: obj where
  "c1_grouped_result = Scope ((scope_new [])\<lparr>primary_id := Some 0\<rparr>)
      [Scope ((scope_new ''a'')\<lparr>primary_parent_scope := Some 5\<rparr>)
         [leaf ''b'' ''5'' 1 6, leaf ''c'' ''2'' 2 6]]"

definition c1_heap :: heap where
  "c1_heap a =
     (if a = 0 then scope_object c1_master
      else if a = 1 then scope_object c1_master_a1
      else if a = 2 then scope_object c1_master_a2
      else if a = 3 then scope_object c1_source
      else if a = 4 then scope_object c1_source_a
      else if a = 5 then scope_object c1_grouped
      else if a = 6 then scope_object c1_grouped_a
      else (scope_new [], []))"

definition c1_result :: obj where
  "c1_result = Scope ((scope_new [])\<lparr>primary_id := Some 0\<rparr>)
      [Scope ((scope_new ''a'')\<lparr>primary_parent_scope := Some 0\<rparr>) [leaf ''b'' ''5'' 1 1],
       Scope ((scope_new ''a'')\<lparr>primary_parent_scope := Some 0\<rparr>) [leaf ''c'' ''2'' 2 2]]"

subsection \<open>A value of the environment that holds a variable\<close>

text \<open>
  An environment with \<open>FOO=$BAR\<close> and \<open>BAR=z\<close>, and the definition \<open>x = $FOO\<close>
  (without a parent scope), resolved once and twice.
\<close>

definition c7_environ :: "string \<Rightarrow> string option" where
  "c7_environ n = (if n = ''FOO'' then Some ''$BAR'' else if n = ''BAR'' then Some ''z'' else None)"

definition c7_ext :: "(string list) ext" where
  "c7_ext = example_ext\<lparr>environ := c7_environ\<rparr>"

definition c7_definition :: phil_definition where
  "c7_definition = definition_new ''x'' [mk_word ''$FOO'' None]"

definition c7_once :: phil_definition where
  "c7_once = definition_new ''x'' [environment_word ''$BAR'' ''FOO'']"

definition c7_twice :: phil_definition where
  "c7_twice = definition_new ''x'' [mk_word ''z'' (Some dquote)]"

text \<open>The definition \<open>p = $HOME/data\<close> and its resolved form.\<close>

definition c8_definition :: phil_definition where
  "c8_definition = definition_new ''p'' [mk_word ''$HOME/data'' None]"

definition c8_resolved :: phil_definition where
  "c8_resolved = definition_new ''p'' [mk_word ''/root/data'' (Some dquote)]"

subsection \<open>A master \<open>x=1\<close> and sources that set \<open>x\<close> more than once\<close>

text \<open>
  Trees built with the constructors (no parent scopes): the master holds \<open>x = 1\<close>; one
  source holds \<open>x = $nope\<close> and then \<open>x = 2\<close>, where no variable \<open>nope\<close> exists;
  two more sources hold \<open>x = 2\<close> and \<open>x = 3\<close>.
\<close>

definition plain :: "string \<Rightarrow> string \<Rightarrow> obj" where
  "plain n v = Definition (definition_new n [mk_word v None])"




definition c2_source_3 :: obj where
  "c2_source_3 = Scope (scope_new []) [plain ''x'' ''3'']"

subsection \<open>A deprecated definition\<close>

text \<open>The master definition \<open>old = 1\<close> with \<open>.deprecated = True\<close>.\<close>

definition c4_old :: phil_definition where
  "c4_old = (definition_new ''old'' [mk_word ''1'' None])\<lparr>deprecated := Some True\<rparr>"

subsection \<open>A multiple definition\<close>



definition c3_source_7 :: obj where
  "c3_source_7 = Scope (scope_new []) [plain ''x'' ''7'']"



subsection \<open>Trees for the round trip\<close>



section \<open>Notions the theorems are stated with\<close>



text \<open>Whether a result is an error of one of the two reserved-name checks.\<close>

fun raises_reserved :: "error + 'a \<Rightarrow> bool" where
  "raises_reserved (Inl e) = is_reserved_error e"
| "raises_reserved (Inr v) = False"


text \<open>
  A word that substitution leaves alone: it is in single quotes, or its value has no
  \<open>$\<close>.
\<close>

definition settled :: "word \<Rightarrow> bool" where
  "settled w = (quote_token w = Some squote \<or> CHR ''$'' \<notin> set (word_value w))"

text \<open>Whether the type of a definition has a \<open>fetch\<close> method.\<close>

definition has_type_fetch :: "'v ext \<Rightarrow> phil_definition \<Rightarrow> bool" where
  "has_type_fetch x d =
     (case type d of
        Some (Converters c) \<Rightarrow> fetch (converters_of x c) \<noteq> None
      | _ \<Rightarrow> False)"




text \<open>Whether a result is the error raised by the \<open>is_reserved_identifier\<close> check.\<close>

fun raises_dunder :: "error + 'a \<Rightarrow> bool" where
  "raises_dunder (Inl (Reserved_identifier n w)) = True"
| "raises_dunder r = False"

section \<open>Theorems\<close>

subsection \<open>Reserved names\<close>

text \<open>
  C10.  Constructing a definition or a scope raises the error of the
  \<open>is_reserved_identifier\<close> check exactly when the name has at least five characters,
  starts with two underscores and ends with two underscores.  In particular the names
  \<open>____\<close> (four underscores) and \<open>__x\<close> are accepted, by both constructors.
\<close>

theorem C10_dunder_names:
  "raises_dunder (definition_init d) =
     (5 \<le> length (name d) \<and> startswith (name d) ''__'' \<and> endswith (name d) ''__'')
   \<and> raises_dunder (scope_init fmt_ok s objects) =
     (5 \<le> length (name s) \<and> startswith (name s) ''__'' \<and> endswith (name s) ''__'')
   \<and> definition_init (d\<lparr>name := ''____''\<rparr>) = Inr (d\<lparr>name := ''____''\<rparr>)
   \<and> definition_init (d\<lparr>name := ''__x''\<rparr>) = Inr (d\<lparr>name := ''__x''\<rparr>)
   \<and> scope_init fmt_ok (s\<lparr>name := ''____'', sequential_format := None\<rparr>) None
       = Inr (Scope (s\<lparr>name := ''____'', sequential_format := None\<rparr>) [])
   \<and> scope_init fmt_ok (s\<lparr>name := ''__x'', sequential_format := None\<rparr>) None
       = Inr (Scope (s\<lparr>name := ''__x'', sequential_format := None\<rparr>) [])"
  by (auto simp: definition_init_def scope_init_def is_reserved_identifier_def Let_def
      startswith_def endswith_def split: option.splits)

text \<open>
  C9 (as stated, refuted).  A definition whose name is exactly \<open>include\<close> is constructed
  without an error: the check of \<open>definition.__init__\<close> leaves that name out.
\<close>

theorem C9_definition_named_include_accepted:
  "definition_init (definition_new ''include'' []) = Inr (definition_new ''include'' [])"
  by (simp add: definition_init_def definition_new_def is_reserved_identifier_def startswith_def)

text \<open>
  C9 (amended).  Constructing a scope raises a reserved-identifier error exactly when its
  name is of the dunder style or has a dotted component equal to \<open>include\<close>.
  Constructing a definition raises one exactly when its name is of the dunder style, or has
  a dotted component equal to \<open>include\<close> and is not \<open>include\<close> itself.
\<close>

theorem C9_reserved_include:
  "raises_reserved (scope_init fmt_ok s objects) =
     (is_reserved_identifier (name s) \<or> ''include'' \<in> set (split_on CHR ''.'' (name s)))
   \<and> raises_reserved (definition_init d) =
     (is_reserved_identifier (name d) \<or>
      (name d \<noteq> ''include'' \<and> ''include'' \<in> set (split_on CHR ''.'' (name d))))"
  by (auto simp: definition_init_def scope_init_def Let_def split: option.splits)

subsection \<open>Duplicate names in a master\<close>







subsection \<open>The fetch of \<open>a.b=5\<close> against \<open>a.b=1\<close>, \<open>a.c=2\<close>\<close>

text \<open>
  C1.  With the master of \<open>a.b=1\<close>, \<open>a.c=2\<close> and the source of \<open>a.b=5\<close>,
  \<open>master.fetch(source)\<close> returns, without a warning, the tree in which \<open>a.b\<close> has the
  word \<open>5\<close> of the source and \<open>a.c\<close> keeps the word \<open>2\<close> of the master, whatever the
  surroundings are and for every number of steps from two on.  Its serialised form is
  \<open>a.b = 5\<close>, \<open>a.c = 2\<close>.  The same holds when the two definitions of the master are
  held by one scope \<open>a\<close>.
\<close>

theorem C1_fetch_scenario:
  "obj_fetch x c1_heap (Suc (Suc n)) False False c1_master [c1_source]
     = ([], Inr (Some c1_result))
   \<and> as_str example_ext c1_result = Inr (''a.b = 5'' @ newline @ ''a.c = 2'' @ newline)
   \<and> obj_fetch x c1_heap (Suc (Suc n)) False False c1_grouped [c1_source]
     = ([], Inr (Some c1_grouped_result))
   \<and> as_str example_ext c1_grouped_result
     = Inr (''a.b = 5'' @ newline @ ''a.c = 2'' @ newline)"
proof (intro conjI)
  show "obj_fetch x c1_heap (Suc (Suc n)) False False c1_master [c1_source]
     = ([], Inr (Some c1_result))"
    by (simp add: c1_master_def c1_source_def c1_result_def c1_master_a1_def c1_master_a2_def
      c1_source_a_def leaf_def scope_new_def definition_new_def mk_word_def c1_heap_def
      scope_customized_copy_def definition_customized_copy_def master_active_turn_def
      fetch_master_object_def fetch_path_def alias_path_def get_active_def startswith_def
      fetch_single_def prepend_def definition_fetch_def fetch_value_def truthy_def
      variable_substitution_proxy_init_def get_new_words_def flush_def mk_fragment_def
      squote_def dquote_def below_def full_path_def)
  show "as_str example_ext c1_result = Inr (''a.b = 5'' @ newline @ ''a.c = 2'' @ newline)"
    by code_simp
  show "obj_fetch x c1_heap (Suc (Suc n)) False False c1_grouped [c1_source]
     = ([], Inr (Some c1_grouped_result))"
    by (simp add: c1_grouped_def c1_grouped_a_def c1_source_def c1_grouped_result_def
      c1_source_a_def leaf_def scope_new_def definition_new_def mk_word_def c1_heap_def
      scope_customized_copy_def definition_customized_copy_def master_active_turn_def
      fetch_master_object_def fetch_path_def alias_path_def get_active_def startswith_def
      fetch_single_def prepend_def definition_fetch_def fetch_value_def truthy_def
      variable_substitution_proxy_init_def get_new_words_def flush_def mk_fragment_def
      squote_def dquote_def below_def full_path_def)
  show "as_str example_ext c1_grouped_result
     = Inr (''a.b = 5'' @ newline @ ''a.c = 2'' @ newline)"
    by code_simp
qed

subsection \<open>Variable substitution\<close>

lemma scan_home_data:
  assumes "ident_start x CHR ''H''" "ident_cont x CHR ''O''" "ident_cont x CHR ''M''"
    "ident_cont x CHR ''E''" "\<not> ident_cont x CHR ''/''"
  shows "scan_fragments x w ''$HOME/data'' []
         = Inr ([mk_fragment True ''HOME'', mk_fragment False ''/data''], True)"
  using assms by (simp add: in_name_def flush_def)

text \<open>
  C8.  Let the value of a definition be the single unquoted word \<open>$HOME/data\<close>, let
  \<open>H\<close> start an identifier, \<open>O\<close>, \<open>M\<close>, \<open>E\<close> continue one and \<open>/\<close> not, let the
  lexical lookup of \<open>HOME\<close> find nothing (there is no parent scope, or \<open>lexical_get\<close>
  returns \<open>None\<close>), and let the environment map \<open>HOME\<close> to \<open>/root\<close>.  Then
  \<open>resolve_variables\<close>, not in diff mode, returns the copy of the definition whose words
  are the one word \<open>/root/data\<close> in double quotes.
\<close>

theorem C8_home_data:
  assumes "words d = [w]" "word_value w = ''$HOME/data''" "quote_token w = None"
    and "ident_start x CHR ''H''" "ident_cont x CHR ''O''" "ident_cont x CHR ''M''"
      "ident_cont x CHR ''E''" "\<not> ident_cont x CHR ''/''"
    and "environ x ''HOME'' = Some ''/root''"
    and "case primary_parent_scope d of
           None \<Rightarrow> True
         | Some a \<Rightarrow> lexical_get h n (h a) ''HOME'' (primary_id d) True = Inr None"
  shows "resolve_variables x h (Suc n) d False
         = Inr (d\<lparr>is_template := 0, words := [mk_word ''/root/data'' (Some dquote)]\<rparr>)"
  using assms scan_home_data[of x w]
  by (auto simp: variable_substitution_proxy_init_def get_new_words_def squote_def
        definition_customized_copy_def mk_fragment_def mk_word_def environment_word_def
        split: option.splits)

theorem C8_home_data_witness:
  "resolve_variables example_ext c1_heap (Suc 0) c8_definition False = Inr c8_resolved"
proof -
  have "resolve_variables example_ext c1_heap (Suc 0) c8_definition False
         = Inr (c8_definition\<lparr>is_template := 0, words := [mk_word ''/root/data'' (Some dquote)]\<rparr>)"
    by (rule C8_home_data[where w = "mk_word ''$HOME/data'' None"])
       (simp_all add: c8_definition_def definition_new_def mk_word_def example_ext_def
          example_environ_def letters_def)
  then show ?thesis
    by (simp add: c8_definition_def c8_resolved_def definition_new_def)
qed

text \<open>
  C7 (as stated, refuted).  In an environment with \<open>FOO=$BAR\<close> and \<open>BAR=z\<close> the
  definition \<open>x = $FOO\<close> resolves to the word \<open>$BAR\<close>, and resolving that result again
  gives the word \<open>z\<close>.
\<close>

theorem C7_resolved_twice_differs:
  "resolve_variables c7_ext c1_heap 1 c7_definition False = Inr c7_once
   \<and> resolve_variables c7_ext c1_heap 1 c7_once False = Inr c7_twice
   \<and> words c7_twice \<noteq> words c7_once"
  by (simp add: c7_ext_def example_ext_def c7_environ_def c7_definition_def c7_once_def
       c7_twice_def definition_new_def mk_word_def environment_word_def letters_def in_name_def
       flush_def variable_substitution_proxy_init_def get_new_words_def squote_def dquote_def
       definition_customized_copy_def mk_fragment_def)

lemma scan_no_dollar:
  "CHR ''$'' \<notin> set cs \<Longrightarrow> scan_fragments x w cs fv = Inr (flush (fv @ cs), False)"
proof (induction cs arbitrary: fv)
  case Nil
  then show ?case by simp
next
  case (Cons c cs)
  then have "\<not> (case cs of [] \<Rightarrow> False | c' # cs' \<Rightarrow> c' = CHR ''$'')"
    by (cases cs) auto
  moreover from Cons.prems have "c \<noteq> CHR ''$''" by auto
  ultimately show ?case using Cons by simp
qed

lemma literal_fragments:
  "resolve_fragments x h n self diff_mode w force (flush fv) \<noteq> Inl e"
  by (simp add: flush_def mk_fragment_def)

lemma resolve_words_settled:
  "list_all settled ws \<Longrightarrow> resolve_words x h n self diff_mode ws = Inr ws"
proof (induction ws)
  case Nil
  then show ?case by simp
next
  case (Cons w ws)
  then have IH: "resolve_words x h n self diff_mode ws = Inr ws" by simp
  show ?case
  proof (cases "quote_token w = Some squote")
    case True
    then show ?thesis using IH by simp
  next
    case False
    with Cons.prems have nd: "CHR ''$'' \<notin> set (word_value w)" by (simp add: settled_def)
    have P: "variable_substitution_proxy_init x w =
       Inr \<lparr>proxy_word = w,
            force_string = (quote_token w \<noteq> None \<or> length (flush (word_value w)) > 1),
            have_variables = False, fragments = flush (word_value w)\<rparr>"
      using scan_no_dollar[OF nd, of x w "[]"] by (simp add: variable_substitution_proxy_init_def)
    obtain rs where R: "resolve_fragments x h n self diff_mode w
        (quote_token w \<noteq> None \<or> length (flush (word_value w)) > 1) (flush (word_value w)) = Inr rs"
      using literal_fragments[of x h n self diff_mode w _ "word_value w"]
      by (metis sum.exhaust)
    show ?thesis using False P R IH by (simp add: get_new_words_def)
  qed
qed

text \<open>
  C7 (amended).  If \<open>resolve_variables\<close> succeeds on a definition and every word of the
  result is in single quotes or has no \<open>$\<close> in its value, then \<open>resolve_variables\<close>
  succeeds on the result (in either mode, with any number of steps but none) and returns
  it unchanged: the same words again.
\<close>

theorem C7_resolve_settled_idempotent:
  assumes "resolve_variables x h fuel d diff_mode = Inr d'"
    and "list_all settled (words d')"
  shows "resolve_variables x h (Suc n) d' diff_mode' = Inr d'"
proof -
  obtain m where "fuel = Suc m" using assms(1) by (cases fuel) auto
  with assms(1) have "is_template d' = 0"
    by (auto simp: definition_customized_copy_def split: sum.splits)
  then have "definition_customized_copy d' None (Some (words d')) = d'"
    by (cases d') (simp add: definition_customized_copy_def)
  then show ?thesis using resolve_words_settled[OF assms(2), of x h n d' diff_mode']
    by simp
qed

theorem C7_resolve_settled_idempotent_witness:
  "resolve_variables example_ext c1_heap 1 c8_definition False = Inr c8_resolved
   \<and> list_all settled (words c8_resolved)
   \<and> resolve_variables example_ext c1_heap 1 c8_resolved False = Inr c8_resolved"
proof -
  have a: "resolve_variables example_ext c1_heap 1 c8_definition False = Inr c8_resolved"
    by (simp add: example_ext_def example_environ_def definition_new_def mk_word_def
       environment_word_def letters_def in_name_def flush_def c8_definition_def c8_resolved_def
       variable_substitution_proxy_init_def get_new_words_def squote_def dquote_def
       definition_customized_copy_def mk_fragment_def)
  have b: "list_all settled (words c8_resolved)"
    by (simp add: settled_def c8_resolved_def definition_new_def mk_word_def)
  show ?thesis using a b C7_resolve_settled_idempotent[OF a b, of 0 False] by simp
qed

subsection \<open>Several matches for a definition that is not multiple\<close>







subsection \<open>Deprecated definitions\<close>

text \<open>
  C4.  Let the master definition be deprecated and let the variables of the source
  definition resolve.  If the resolved words of the source stringify like the words of the
  master, the fetch returns \<open>None\<close> and emits no warning, and the turn of \<open>scope.fetch\<close>
  for this definition adds nothing to the result: the parameter is left out.  If they
  stringify differently, the fetch emits one \<open>PhilDeprecationWarning\<close> (a warning, not an
  error: the fetch goes on) and then fetches the value as usual: for a type without a
  \<open>fetch\<close> method the result is the copy of the master with the words of the source,
  which the turn of \<open>scope.fetch\<close> adds to the result; for a type with a \<open>fetch\<close> method
  it is whatever that method returns for the words of the source.
\<close>

theorem C4_deprecated:
  assumes "deprecated d = Some True"
    and "resolve_variables x h fuel src False = Inr src'"
    and "full_path h fuel (name d) (primary_parent_scope d) = Inr fp"
  shows "(strings_from_words x (words src') = strings_from_words x (words d) \<longrightarrow>
            fetch_value x h fuel d (Definition src) False skip = ([], Inr None)
          \<and> fetch_single False (Definition d) (obj_fetch x h fuel False skip (Definition d))
                [Definition src] = ([], Inr []))
       \<and> (strings_from_words x (words src') \<noteq> strings_from_words x (words d) \<longrightarrow>
            fst (fetch_value x h fuel d (Definition src) False skip)
              = [PhilDeprecationWarning (deprecation_message fp)]
          \<and> (\<not> has_type_fetch x d \<longrightarrow>
                fetch_value x h fuel d (Definition src) False skip
                  = ([PhilDeprecationWarning (deprecation_message fp)],
                     Inr (Some (Definition (d\<lparr>words := words src', is_template := 0\<rparr>))))
              \<and> fetch_single False (Definition d) (obj_fetch x h fuel False skip (Definition d))
                    [Definition src]
                  = ([PhilDeprecationWarning (deprecation_message fp)],
                     Inr [Definition (d\<lparr>words := words src', is_template := 0\<rparr>)]))
          \<and> (\<forall>c f. type d = Some (Converters c) \<and> fetch (converters_of x c) = Some f \<longrightarrow>
                snd (fetch_value x h fuel d (Definition src) False skip)
                  = f (words src') d
                      (if phil_type (converters_of x c) = ''choice'' then Some skip else None)))"
  using assms
  by (auto simp: fetch_value_def fetch_single_def definition_fetch_def truthy_def prepend_def
      has_type_fetch_def definition_customized_copy_def
      split: option.splits type_ref.splits)

theorem C4_deprecated_witness:
  "fetch_value example_ext c1_heap 1 c4_old (plain ''old'' ''1'') False False = ([], Inr None)
   \<and> fetch_single False (Definition c4_old)
        (obj_fetch example_ext c1_heap 1 False False (Definition c4_old)) [plain ''old'' ''1'']
      = ([], Inr [])
   \<and> fetch_single False (Definition c4_old)
        (obj_fetch example_ext c1_heap 1 False False (Definition c4_old)) [plain ''old'' ''2'']
      = ([PhilDeprecationWarning (deprecation_message ''old'')],
         Inr [Definition (c4_old\<lparr>words := [mk_word ''2'' None]\<rparr>)])"
proof -
  have r1: "resolve_variables example_ext c1_heap 1 (definition_new ''old'' [mk_word ''1'' None]) False
            = Inr (definition_new ''old'' [mk_word ''1'' None])"
    by (simp add: definition_new_def mk_word_def definition_customized_copy_def
        variable_substitution_proxy_init_def get_new_words_def flush_def mk_fragment_def
        squote_def dquote_def)
  have r2: "resolve_variables example_ext c1_heap 1 (definition_new ''old'' [mk_word ''2'' None]) False
            = Inr (definition_new ''old'' [mk_word ''2'' None])"
    by (simp add: definition_new_def mk_word_def definition_customized_copy_def
        variable_substitution_proxy_init_def get_new_words_def flush_def mk_fragment_def
        squote_def dquote_def)
  have d: "deprecated c4_old = Some True" by (simp add: c4_old_def)
  have p: "full_path c1_heap 1 (name c4_old) (primary_parent_scope c4_old) = Inr ''old''"
    by (simp add: c4_old_def definition_new_def full_path_def)
  have s1: "strings_from_words example_ext (words (definition_new ''old'' [mk_word ''1'' None]))
            = strings_from_words example_ext (words c4_old)"
    by (simp add: c4_old_def definition_new_def)
  have s2: "strings_from_words example_ext (words (definition_new ''old'' [mk_word ''2'' None]))
            \<noteq> strings_from_words example_ext (words c4_old)"
    by (simp add: c4_old_def definition_new_def example_ext_def example_from_words_def
        is_plain_def mk_word_def)
  have n: "\<not> has_type_fetch example_ext c4_old"
    by (simp add: has_type_fetch_def c4_old_def definition_new_def)
  show ?thesis
    using C4_deprecated[OF d r1 p, of False] C4_deprecated[OF d r2 p, of False] s1 s2 n
    by (simp add: plain_def c4_old_def definition_new_def)
qed

subsection \<open>Multiple definitions: one copy per canonical form\<close>












subsection \<open>The round trip through \<open>extract\<close> and \<open>format\<close>\<close>












end
